theory Spec2Isabelle
  imports Main "HOL-Library.Sublist"
begin

section \<open>Python values, failures and calls\<close>

text \<open>
  The module \<^verbatim>\<open>a.py\<close> is a Porter stemmer whose methods were turned into module-level
  functions. Words are Python strings (here \<^typ>\<open>string\<close>), cursors are Python integers
  (here \<^typ>\<open>int\<close>, unbounded). Three kinds of exception can leave a function of the
  module: an index out of range, the read of a name that nothing binds, and a call that
  passes fewer arguments than the callee has parameters. A fourth, IndentationError, is
  raised when Python compiles the file and before any function exists. Each is a value
  of \<open>error\<close>; a computation is a value of \<open>error + 'a\<close>, with \<open>Inl\<close> for the
  exception.
\<close>

datatype error = NameError string | TypeError string | IndexError | IndentationError

definition and_then :: "error + 'a \<Rightarrow> ('a \<Rightarrow> error + 'b) \<Rightarrow> error + 'b" where
  "and_then x f = (case x of Inl e \<Rightarrow> Inl e | Inr v \<Rightarrow> f v)"

text \<open>
  A function body is modelled on its own frame: where a claim depends on what the body
  assigns, the model \<open>f_frame\<close> gives the returned value together with the final binding
  of the locals the body assigns. The caller receives the value alone (\<open>returned\<close>): strings
  and integers are immutable objects, the module has no \<^verbatim>\<open>global\<close> statement, and no
  function returns a cursor or a buffer, so the callee's frame is dropped at return.
\<close>

definition returned :: "error + 'v \<times> 'f \<Rightarrow> error + 'v" where
  "returned x = (case x of Inl e \<Rightarrow> Inl e | Inr (v, fr) \<Rightarrow> Inr v)"

text \<open>
  \<^verbatim>\<open>f(a)\<close> for a function of more parameters than arguments raises TypeError before
  the body of \<^verbatim>\<open>f\<close> starts; the error names the callee.
\<close>

definition missing_args :: "string \<Rightarrow> error + 'a" where
  "missing_args f = Inl (TypeError f)"

text \<open>
  The names the module binds at top level are \<^verbatim>\<open>sys\<close>, its seventeen functions and,
  when it runs as a script, \<^verbatim>\<open>word\<close> and \<^verbatim>\<open>q\<close>. The assignments to \<^verbatim>\<open>k\<close>,
  \<^verbatim>\<open>k0\<close> and \<^verbatim>\<open>offset\<close> of lines 46 to 49 are locals of \<^verbatim>\<open>__init__\<close>, which nothing
  calls. So the module binds no integer, and the read of \<^verbatim>\<open>k0\<close> or \<^verbatim>\<open>offset\<close> in a
  function that has no such parameter is a failed lookup.
\<close>

definition module_ints :: "string \<rightharpoonup> int" where
  "module_ints = Map.empty"

definition global_int :: "string \<Rightarrow> error + int" where
  "global_int name = (case module_ints name of None \<Rightarrow> Inl (NameError name) | Some v \<Rightarrow> Inr v)"

subsection \<open>Indexing and slicing\<close>

text \<open>
  \<^verbatim>\<open>w[i]\<close> counts a negative index from the end and raises outside \<open>-len \<le> i < len\<close>;
  a slice \<^verbatim>\<open>w[a:b]\<close> clips both bounds to the string and never raises.
\<close>

definition py_index :: "string \<Rightarrow> int \<Rightarrow> error + char" where
  "py_index w i =
     (if 0 \<le> i \<and> i < int (length w) then Inr (w ! nat i)
      else if i < 0 \<and> - int (length w) \<le> i then Inr (w ! nat (int (length w) + i))
      else Inl IndexError)"

definition py_clip :: "nat \<Rightarrow> int \<Rightarrow> nat" where
  "py_clip n i = (if i < 0 then nat (int n + i) else min n (nat i))"

definition py_slice :: "string \<Rightarrow> int \<Rightarrow> int \<Rightarrow> string" where
  "py_slice w a b = take (py_clip (length w) b - py_clip (length w) a) (drop (py_clip (length w) a) w)"

definition py_upto :: "string \<Rightarrow> int \<Rightarrow> string" where
  "py_upto w b = take (py_clip (length w) b) w"

definition py_from :: "string \<Rightarrow> int \<Rightarrow> string" where
  "py_from w a = drop (py_clip (length w) a) w"

section \<open>Consonant and vowel predicates\<close>

text \<open>
  \<^verbatim>\<open>cons(i, word, k0)\<close>, lines 51 to 60. The functions return 0, 1 or a Python bool and
  are only ever tested for truth, so the model returns \<^typ>\<open>bool\<close>. For a \<^verbatim>\<open>y\<close> away
  from \<^verbatim>\<open>k0\<close> the body calls \<^verbatim>\<open>cons(i - 1)\<close>, one argument for three parameters.
\<close>

definition cons :: "int \<Rightarrow> string \<Rightarrow> int \<Rightarrow> error + bool" where
  "cons i word k0 =
     and_then (py_index word i) (\<lambda>c.
       if c = CHR ''a'' \<or> c = CHR ''e'' \<or> c = CHR ''i'' \<or> c = CHR ''o'' \<or> c = CHR ''u''
       then Inr False
       else if c = CHR ''y'' then
         (if i = k0 then Inr True
          else and_then (missing_args ''cons'') (\<lambda>b. Inr (\<not> b)))
       else Inr True)"

text \<open>The call \<^verbatim>\<open>cons(i)\<close> that every other predicate makes.\<close>

definition cons1 :: "int \<Rightarrow> error + bool" where
  "cons1 i = missing_args ''cons''"

text \<open>
  \<^verbatim>\<open>m(k0, offset)\<close>, lines 62 to 97: three scanning loops over \<^verbatim>\<open>i\<close>, each leaving with
  \<^verbatim>\<open>n\<close> once \<^verbatim>\<open>i > offset\<close>. \<open>Lead\<close> is the loop of lines 75 to 80, \<open>Vowels\<close> that of
  lines 83 to 88 and \<open>Consonants\<close> that of lines 91 to 96; \<open>c\<close> is the consonant test the
  loops call.
\<close>

datatype phase = Lead | Vowels | Consonants

function m_scan :: "(int \<Rightarrow> error + bool) \<Rightarrow> int \<Rightarrow> phase \<Rightarrow> int \<Rightarrow> int \<Rightarrow> error + int" where
  "m_scan c offset ph i n =
     (if i > offset then Inr n
      else case c i of
          Inl e \<Rightarrow> Inl e
        | Inr b \<Rightarrow>
            (case ph of
               Lead \<Rightarrow>
                 if \<not> b then m_scan c offset Vowels (i + 1) n
                 else m_scan c offset Lead (i + 1) n
             | Vowels \<Rightarrow>
                 if b then m_scan c offset Consonants (i + 1) (n + 1)
                 else m_scan c offset Vowels (i + 1) n
             | Consonants \<Rightarrow>
                 if \<not> b then m_scan c offset Vowels (i + 1) n
                 else m_scan c offset Consonants (i + 1) n))"
  by pat_completeness auto
termination
  by (relation "measure (\<lambda>(c, offset, ph, i, n). nat (offset + 1 - i))") auto

declare m_scan.simps [simp del]

definition m :: "int \<Rightarrow> int \<Rightarrow> error + int" where
  "m k0 offset = m_scan cons1 offset Lead k0 0"

text \<open>
  \<^verbatim>\<open>vowelinstem(k0)\<close>, lines 99 to 104: the loop bound \<^verbatim>\<open>offset\<close> is not a parameter.
\<close>

function vowel_scan :: "(int \<Rightarrow> error + bool) \<Rightarrow> int \<Rightarrow> int \<Rightarrow> error + bool" where
  "vowel_scan c i offset =
     (if i > offset then Inr False
      else case c i of
          Inl e \<Rightarrow> Inl e
        | Inr b \<Rightarrow> if \<not> b then Inr True else vowel_scan c (i + 1) offset)"
  by pat_completeness auto
termination
  by (relation "measure (\<lambda>(c, i, offset). nat (offset + 1 - i))") auto

declare vowel_scan.simps [simp del]

definition vowelinstem :: "int \<Rightarrow> error + bool" where
  "vowelinstem k0 = and_then (global_int ''offset'') (\<lambda>offset. vowel_scan cons1 k0 offset)"

text \<open>\<^verbatim>\<open>doublec(j, word, k0)\<close>, lines 106 to 112, and \<^verbatim>\<open>cvc(i, word, k0)\<close>, lines 114 to 127.\<close>

definition doublec :: "int \<Rightarrow> string \<Rightarrow> int \<Rightarrow> error + bool" where
  "doublec j word k0 =
     (if j < k0 + 1 then Inr False
      else and_then (py_index word j) (\<lambda>a.
           and_then (py_index word (j - 1)) (\<lambda>b.
             if a \<noteq> b then Inr False else cons1 j)))"

definition cvc :: "int \<Rightarrow> string \<Rightarrow> int \<Rightarrow> error + bool" where
  "cvc i word k0 =
     (if i < k0 + 2 then Inr False
      else and_then (cons1 i) (\<lambda>c0.
        if \<not> c0 then Inr False
        else and_then (cons1 (i - 1)) (\<lambda>c1.
          if c1 then Inr False
          else and_then (cons1 (i - 2)) (\<lambda>c2.
            if \<not> c2 then Inr False
            else and_then (py_index word i) (\<lambda>ch.
              if ch = CHR ''w'' \<or> ch = CHR ''x'' \<or> ch = CHR ''y'' then Inr False
              else Inr True)))))"

section \<open>Suffix operators\<close>

text \<open>
  \<^verbatim>\<open>ends(s, word, k, k0, offset)\<close>, lines 129 to 139. The frame's second component is
  the binding of the parameter \<^verbatim>\<open>offset\<close> when the body returns.
\<close>

definition ends_frame :: "string \<Rightarrow> string \<Rightarrow> int \<Rightarrow> int \<Rightarrow> int \<Rightarrow> error + bool \<times> int" where
  "ends_frame s word k k0 offset =
     (let len = int (length s) in
      and_then (py_index s (len - 1)) (\<lambda>a.
      and_then (py_index word k) (\<lambda>b.
        if a \<noteq> b then Inr (False, offset)
        else if len > k - k0 + 1 then Inr (False, offset)
        else if py_slice word (k - len + 1) (k + 1) \<noteq> s then Inr (False, offset)
        else Inr (True, k - len))))"

definition ends :: "string \<Rightarrow> string \<Rightarrow> int \<Rightarrow> int \<Rightarrow> int \<Rightarrow> error + bool" where
  "ends s word k k0 offset = returned (ends_frame s word k k0 offset)"

text \<open>
  \<^verbatim>\<open>setto(s, word, k, offset)\<close>, lines 141 to 145: two assignments to parameters and no
  \<^verbatim>\<open>return\<close>. The frame holds \<^verbatim>\<open>word\<close> and \<^verbatim>\<open>k\<close> at the end of the body.
\<close>

definition setto_frame :: "string \<Rightarrow> string \<Rightarrow> int \<Rightarrow> int \<Rightarrow> error + unit \<times> (string \<times> int)" where
  "setto_frame s word k offset =
     (let len = int (length s);
          word = py_upto word (offset + 1) @ s @ py_from word (offset + len + 1);
          k = offset + len
      in Inr ((), (word, k)))"

definition setto :: "string \<Rightarrow> string \<Rightarrow> int \<Rightarrow> int \<Rightarrow> error + unit" where
  "setto s word k offset = returned (setto_frame s word k offset)"

text \<open>\<^verbatim>\<open>r(s, word, k, offset)\<close>, lines 147 to 150; it calls \<^verbatim>\<open>m()\<close> with no argument.\<close>

definition r :: "string \<Rightarrow> string \<Rightarrow> int \<Rightarrow> int \<Rightarrow> error + unit" where
  "r s word k offset =
     and_then (missing_args ''m'') (\<lambda>n. if (n::int) > 0 then setto s word k offset else Inr ())"

section \<open>The steps\<close>

text \<open>
  The calls the steps make. In \<^verbatim>\<open>step1ab\<close>, \<^verbatim>\<open>step1c\<close>, \<^verbatim>\<open>step2\<close> and \<^verbatim>\<open>step3\<close>
  (parameters \<^verbatim>\<open>word\<close> and \<^verbatim>\<open>k\<close>) the arguments \<^verbatim>\<open>k0\<close> and \<^verbatim>\<open>offset\<close> are module
  names; arguments are evaluated left to right, \<^verbatim>\<open>k0\<close> before \<^verbatim>\<open>offset\<close>, and the
  callee starts once all of them have a value. In \<^verbatim>\<open>step4\<close> and \<^verbatim>\<open>step5\<close>,
  \<^verbatim>\<open>offset\<close> is a parameter and \<^verbatim>\<open>k0\<close> a module name.
\<close>

definition ends_g :: "string \<Rightarrow> string \<Rightarrow> int \<Rightarrow> error + bool" where
  "ends_g s word k =
     and_then (global_int ''k0'') (\<lambda>k0.
     and_then (global_int ''offset'') (\<lambda>offset. ends s word k k0 offset))"

definition ends_k0 :: "string \<Rightarrow> string \<Rightarrow> int \<Rightarrow> int \<Rightarrow> error + bool" where
  "ends_k0 s word k offset = and_then (global_int ''k0'') (\<lambda>k0. ends s word k k0 offset)"

definition setto_g :: "string \<Rightarrow> string \<Rightarrow> int \<Rightarrow> error + unit" where
  "setto_g s word k = and_then (global_int ''offset'') (\<lambda>offset. setto s word k offset)"

definition r_g :: "string \<Rightarrow> string \<Rightarrow> int \<Rightarrow> error + unit" where
  "r_g s word k = and_then (global_int ''offset'') (\<lambda>offset. r s word k offset)"

definition m_g :: "error + int" where
  "m_g = and_then (global_int ''k0'') (\<lambda>k0. and_then (global_int ''offset'') (\<lambda>offset. m k0 offset))"

definition m_k0 :: "int \<Rightarrow> error + int" where
  "m_k0 offset = and_then (global_int ''k0'') (\<lambda>k0. m k0 offset)"

text \<open>
  \<^verbatim>\<open>step1ab(word, k)\<close>, lines 152 to 194, in two parts; each gives the binding of the
  local \<^verbatim>\<open>k\<close> at its end. \<open>step1a\<close> is the plural block of lines 173 to 179 and
  \<open>step1b\<close> the chain of lines 180 to 194. The \<^verbatim>\<open>elif\<close> of line 193 stands at column
  8, between the column of the chain it follows (4, lines 180, 183 and 188) and that of the
  block before it (12, lines 189 to 192); Python refuses such a line (section
  \<open>The file as given\<close> below). The functions of this section are the \<^verbatim>\<open>def\<close>s read one
  by one, and here the \<^verbatim>\<open>elif\<close> is read as the next branch of the chain of lines 180,
  183 and 188, the only chain open at a smaller column. No run reaches that line or any
  line after 180: both ways through the body first evaluate the arguments of a call to
  \<^verbatim>\<open>ends\<close>, at line 174 or at line 180.
\<close>

definition step1a :: "string \<Rightarrow> int \<Rightarrow> error + int" where
  "step1a word k =
     and_then (py_index word k) (\<lambda>c.
       if c = CHR ''s'' then
         and_then (ends_g ''sses'' word k) (\<lambda>b1.
           if b1 then Inr (k - 2)
           else and_then (ends_g ''ies'' word k) (\<lambda>b2.
             if b2 then and_then (setto_g ''i'' word k) (\<lambda>u. Inr k)
             else and_then (py_index word (k - 1)) (\<lambda>d.
               if d \<noteq> CHR ''s'' then Inr (k - 1) else Inr k)))
       else Inr k)"

definition step1b :: "string \<Rightarrow> int \<Rightarrow> error + int" where
  "step1b word k =
     and_then (ends_g ''eed'' word k) (\<lambda>b1.
       if b1 then and_then m_g (\<lambda>n. if n > 0 then Inr (k - 1) else Inr k)
       else
         and_then (ends_g ''ed'' word k) (\<lambda>b2.
         and_then (if b2 then Inr True else ends_g ''ing'' word k) (\<lambda>b3.
         and_then (if b3 then missing_args ''vowelinstem'' else Inr False) (\<lambda>v.
           if v then
             and_then (global_int ''offset'') (\<lambda>k.
               and_then (ends_g ''at'' word k) (\<lambda>c1.
                 if c1 then and_then (setto_g ''ate'' word k) (\<lambda>u. Inr k)
                 else and_then (ends_g ''bl'' word k) (\<lambda>c2.
                   if c2 then and_then (setto_g ''ble'' word k) (\<lambda>u. Inr k)
                   else and_then (ends_g ''iz'' word k) (\<lambda>c3.
                     if c3 then and_then (setto_g ''ize'' word k) (\<lambda>u. Inr k)
                     else Inr k))))
           else
             and_then (missing_args ''doublec'') (\<lambda>d.
               if d then
                 and_then (py_index word (k - 1)) (\<lambda>ch.
                   if ch = CHR ''l'' \<or> ch = CHR ''s'' \<or> ch = CHR ''z''
                   then Inr (k - 1 + 1) else Inr (k - 1))
               else
                 and_then m_g (\<lambda>n.
                 and_then (if n = 1 then missing_args ''cvc'' else Inr False) (\<lambda>c.
                   if c then and_then (setto_g ''e'' word k) (\<lambda>u. Inr k)
                   else Inr k)))))))"

definition step1ab_frame :: "string \<Rightarrow> int \<Rightarrow> error + unit \<times> int" where
  "step1ab_frame word k =
     and_then (step1a word k) (\<lambda>k. and_then (step1b word k) (\<lambda>k. Inr ((), k)))"

definition step1ab :: "string \<Rightarrow> int \<Rightarrow> error + unit" where
  "step1ab word k = returned (step1ab_frame word k)"

text \<open>
  \<^verbatim>\<open>step1c(word, k)\<close>, lines 196 to 199. The frame holds the local \<^verbatim>\<open>word\<close> at the
  end of the body; \<^verbatim>\<open>vowelinstem()\<close> is called with no argument.
\<close>

definition step1c_frame :: "string \<Rightarrow> int \<Rightarrow> error + unit \<times> string" where
  "step1c_frame word k =
     and_then (ends_g ''y'' word k) (\<lambda>b.
     and_then (if b then missing_args ''vowelinstem'' else Inr False) (\<lambda>v.
       if v then Inr ((), py_upto word k @ ''i'' @ py_from word (k + 1))
       else Inr ((), word)))"

definition step1c :: "string \<Rightarrow> int \<Rightarrow> error + unit" where
  "step1c word k = returned (step1c_frame word k)"

text \<open>
  \<^verbatim>\<open>step2\<close> and \<^verbatim>\<open>step3\<close> pick a group of suffixes by one letter and try the group
  in order: the first \<^verbatim>\<open>ends\<close> that holds calls \<^verbatim>\<open>r\<close> with its replacement and ends
  the step. \<open>first_match\<close> is that \<^verbatim>\<open>if\<close>/\<^verbatim>\<open>elif\<close> chain over a group.
\<close>

fun first_match :: "(string \<times> string) list \<Rightarrow> string \<Rightarrow> int \<Rightarrow> error + unit" where
  "first_match [] word k = Inr ()"
| "first_match ((suf, rep) # rest) word k =
     and_then (ends_g suf word k) (\<lambda>b.
       if b then r_g rep word k else first_match rest word k)"

definition step2 :: "string \<Rightarrow> int \<Rightarrow> error + unit" where
  "step2 word k =
     and_then (py_index word (k - 1)) (\<lambda>c.
       if c = CHR ''a'' then
         first_match [(''ational'', ''ate''), (''tional'', ''tion'')] word k
       else if c = CHR ''c'' then
         first_match [(''enci'', ''ence''), (''anci'', ''ance'')] word k
       else if c = CHR ''e'' then
         first_match [(''izer'', ''ize'')] word k
       else if c = CHR ''l'' then
         first_match [(''bli'', ''ble''), (''alli'', ''al''), (''entli'', ''ent''),
                      (''eli'', ''e''), (''ousli'', ''ous'')] word k
       else if c = CHR ''o'' then
         first_match [(''ization'', ''ize''), (''ation'', ''ate''), (''ator'', ''ate'')] word k
       else if c = CHR ''s'' then
         first_match [(''alism'', ''al''), (''iveness'', ''ive''), (''fulness'', ''ful''),
                      (''ousness'', ''ous'')] word k
       else if c = CHR ''t'' then
         first_match [(''aliti'', ''al''), (''iviti'', ''ive''), (''biliti'', ''ble'')] word k
       else if c = CHR ''g'' then
         first_match [(''logi'', ''log'')] word k
       else Inr ())"

definition step3 :: "string \<Rightarrow> int \<Rightarrow> error + unit" where
  "step3 word k =
     and_then (py_index word k) (\<lambda>c.
       if c = CHR ''e'' then
         first_match [(''icate'', ''ic''), (''ative'', []), (''alize'', ''al'')] word k
       else if c = CHR ''i'' then
         first_match [(''iciti'', ''ic'')] word k
       else if c = CHR ''l'' then
         first_match [(''ical'', ''ic''), (''ful'', [])] word k
       else if c = CHR ''s'' then
         first_match [(''ness'', [])] word k
       else Inr ())"

text \<open>
  \<^verbatim>\<open>step4(word, k, offset)\<close>, lines 253 to 302. \<open>any_match\<close> is a chain of
  \<^verbatim>\<open>if ends(..): pass\<close> / \<^verbatim>\<open>elif ends(..): pass\<close>: true when one holds, false when the
  chain reaches \<^verbatim>\<open>else: return\<close>. The frame holds the local \<^verbatim>\<open>k\<close> at the end.
\<close>

fun any_match :: "string list \<Rightarrow> string \<Rightarrow> int \<Rightarrow> int \<Rightarrow> error + bool" where
  "any_match [] word k offset = Inr False"
| "any_match (suf # rest) word k offset =
     and_then (ends_k0 suf word k offset) (\<lambda>b.
       if b then Inr True else any_match rest word k offset)"

definition step4_match :: "char \<Rightarrow> string \<Rightarrow> int \<Rightarrow> int \<Rightarrow> error + bool" where
  "step4_match c word k offset =
     (if c = CHR ''a'' then any_match [''al''] word k offset
      else if c = CHR ''c'' then any_match [''ance'', ''ence''] word k offset
      else if c = CHR ''e'' then any_match [''er''] word k offset
      else if c = CHR ''i'' then any_match [''ic''] word k offset
      else if c = CHR ''l'' then any_match [''able'', ''ible''] word k offset
      else if c = CHR ''n'' then any_match [''ant'', ''ement'', ''ment'', ''ent''] word k offset
      else if c = CHR ''o'' then
        and_then (ends_k0 ''ion'' word k offset) (\<lambda>b.
        and_then (if b then and_then (py_index word offset) (\<lambda>d. Inr (d = CHR ''s'' \<or> d = CHR ''t''))
                  else Inr False) (\<lambda>b'.
          if b' then Inr True else any_match [''ou''] word k offset))
      else if c = CHR ''s'' then any_match [''ism''] word k offset
      else if c = CHR ''t'' then any_match [''ate'', ''iti''] word k offset
      else if c = CHR ''u'' then any_match [''ous''] word k offset
      else if c = CHR ''v'' then any_match [''ive''] word k offset
      else if c = CHR ''z'' then any_match [''ize''] word k offset
      else Inr False)"

definition step4_frame :: "string \<Rightarrow> int \<Rightarrow> int \<Rightarrow> error + unit \<times> int" where
  "step4_frame word k offset =
     and_then (py_index word (k - 1)) (\<lambda>c.
     and_then (step4_match c word k offset) (\<lambda>matched.
       if \<not> matched then Inr ((), k)
       else and_then (m_k0 offset) (\<lambda>n. if n > 1 then Inr ((), offset) else Inr ((), k))))"

definition step4 :: "string \<Rightarrow> int \<Rightarrow> int \<Rightarrow> error + unit" where
  "step4 word k offset = returned (step4_frame word k offset)"

text \<open>
  \<^verbatim>\<open>step5(word, k, offset)\<close>, lines 304 to 314; \<^verbatim>\<open>cvc(k-1)\<close> and \<^verbatim>\<open>doublec(k)\<close>
  pass one argument for three parameters. The frame holds the local \<^verbatim>\<open>k\<close> at the end.
\<close>

definition step5_frame :: "string \<Rightarrow> int \<Rightarrow> int \<Rightarrow> error + unit \<times> int" where
  "step5_frame word k offset =
     (let offset = k in
      and_then (py_index word k) (\<lambda>c.
      and_then
        (if c = CHR ''e'' then
           and_then (m_k0 offset) (\<lambda>a.
             if a > 1 then Inr (k - 1)
             else if a = 1 then
               and_then (missing_args ''cvc'') (\<lambda>b. if \<not> b then Inr (k - 1) else Inr k)
             else Inr k)
         else Inr k) (\<lambda>k.
      and_then (py_index word k) (\<lambda>c'.
        if c' = CHR ''l'' then
          and_then (missing_args ''doublec'') (\<lambda>d.
            if d then and_then (m_k0 offset) (\<lambda>n. if n > 1 then Inr ((), k - 1) else Inr ((), k))
            else Inr ((), k))
        else Inr ((), k)))))"

definition step5 :: "string \<Rightarrow> int \<Rightarrow> int \<Rightarrow> error + unit" where
  "step5 word k offset = returned (step5_frame word k offset)"

section \<open>The entry point\<close>

text \<open>
  \<^verbatim>\<open>stem(p, i, j, word, k, k0, offset)\<close>, lines 316 to 343. The body rebinds \<^verbatim>\<open>word\<close>,
  \<^verbatim>\<open>k\<close> and \<^verbatim>\<open>k0\<close> first, returns \<^verbatim>\<open>word\<close> when \<^verbatim>\<open>k <= k0 + 1\<close>, and otherwise
  calls the six steps in order, each with the two arguments \<^verbatim>\<open>word, k\<close> (so \<^verbatim>\<open>step4\<close>
  and \<^verbatim>\<open>step5\<close>, of three parameters, are called one argument short), and returns
  \<^verbatim>\<open>word[k0:k+1]\<close>. \<open>run_steps\<close> runs the calls in order up to the first exception and
  also gives the steps that were entered.
\<close>

datatype step = Step1ab | Step1c | Step2 | Step3 | Step4 | Step5

fun run_steps :: "(step \<times> (error + unit)) list \<Rightarrow> step list \<times> (error + unit)" where
  "run_steps [] = ([], Inr ())"
| "run_steps ((name, res) # rest) =
     (case res of
        Inl e \<Rightarrow> ([name], Inl e)
      | Inr u \<Rightarrow> (case run_steps rest of (names, res') \<Rightarrow> (name # names, res')))"

definition stem_run ::
  "string \<Rightarrow> int \<Rightarrow> int \<Rightarrow> string \<Rightarrow> int \<Rightarrow> int \<Rightarrow> int \<Rightarrow> step list \<times> (error + string)" where
  "stem_run p i j word k k0 offset =
     (let word = p; k = offset; k0 = i in
      if k \<le> k0 + 1 then ([], Inr word)
      else
        (case run_steps
            [(Step1ab, step1ab word k), (Step1c, step1c word k), (Step2, step2 word k),
             (Step3, step3 word k), (Step4, missing_args ''step4''),
             (Step5, missing_args ''step5'')] of
           (names, Inl e) \<Rightarrow> (names, Inl e)
         | (names, Inr u) \<Rightarrow> (names, Inr (py_slice word k0 (k + 1)))))"

definition stem :: "string \<Rightarrow> int \<Rightarrow> int \<Rightarrow> string \<Rightarrow> int \<Rightarrow> int \<Rightarrow> int \<Rightarrow> error + string" where
  "stem p i j word k k0 offset = snd (stem_run p i j word k k0 offset)"

definition steps_entered :: "string \<Rightarrow> int \<Rightarrow> int \<Rightarrow> string \<Rightarrow> int \<Rightarrow> int \<Rightarrow> int \<Rightarrow> step list" where
  "steps_entered p i j word k k0 offset = fst (stem_run p i j word k k0 offset)"

text \<open>
  The docstring of \<^verbatim>\<open>stem\<close> describes the call \<^verbatim>\<open>stem(p, i, j)\<close>, the string to be
  stemmed running from \<^verbatim>\<open>p[i]\<close> to \<^verbatim>\<open>p[j]\<close>, and the script part of the module,
  lines 346 to 351, makes that call with \<^verbatim>\<open>stem(word, 0, len(word)-1)\<close> on
  \<^verbatim>\<open>processing\<close>: three arguments for seven parameters.
\<close>

definition stem3 :: "string \<Rightarrow> int \<Rightarrow> int \<Rightarrow> error + string" where
  "stem3 p i j = missing_args ''stem''"

definition script_main :: "error + string" where
  "script_main = and_then (stem3 ''processing'' 0 9) (\<lambda>q. Inr q)"

section \<open>The file as given\<close>






section \<open>What a caller observes\<close>

text \<open>
  A caller holds its own bindings of the buffer and the cursors. \<open>call c f\<close> is the call
  of a function whose arguments are read from the caller's frame \<open>c\<close>: the caller gets
  the returned value or the exception, and its frame after the call.
\<close>

record caller =
  word_of :: string
  k_of :: int
  k0_of :: int
  offset_of :: int

definition call :: "caller \<Rightarrow> (caller \<Rightarrow> error + 'v \<times> 'f) \<Rightarrow> (error + 'v) \<times> caller" where
  "call c f = (returned (f c), c)"

definition call_ends :: "string \<Rightarrow> caller \<Rightarrow> (error + bool) \<times> caller" where
  "call_ends s c = call c (\<lambda>c. ends_frame s (word_of c) (k_of c) (k0_of c) (offset_of c))"

section \<open>Names, frames and calls\<close>

text \<open>
  For what an assignment in a callee can change, the names themselves are modelled. A
  state is the module's namespace and the frame of the running function, each a map from
  names to values. A name that a function assigns anywhere in its body, or has as a
  parameter, is local to it unless the body declares it \<^verbatim>\<open>global\<close>: it is read from
  and stored to the frame (\<open>local_str\<close>, \<open>local_int\<close>, \<open>store_local\<close>). Every other name
  is read from the module's namespace (\<open>module_int\<close>). \<open>store_global\<close> is the
  assignment to a name declared \<^verbatim>\<open>global\<close>; the module has no such declaration, so no
  function of it uses \<open>store_global\<close>. A value of the wrong kind makes the operation
  that uses it raise TypeError.
\<close>

datatype val = StrV string | IntV int | NoneV

record pystate =
  globals_of :: "string \<rightharpoonup> val"
  locals_of :: "string \<rightharpoonup> val"

type_synonym 'a action = "pystate \<Rightarrow> error + 'a \<times> pystate"

definition return_val :: "'a \<Rightarrow> 'a action" where
  "return_val v st = Inr (v, st)"

definition then_do :: "'a action \<Rightarrow> ('a \<Rightarrow> 'b action) \<Rightarrow> 'b action" where
  "then_do a f st = (case a st of Inl e \<Rightarrow> Inl e | Inr (v, st') \<Rightarrow> f v st')"

definition lift :: "error + 'a \<Rightarrow> 'a action" where
  "lift x st = (case x of Inl e \<Rightarrow> Inl e | Inr v \<Rightarrow> Inr (v, st))"

definition as_str :: "string \<Rightarrow> val option \<Rightarrow> error + string" where
  "as_str x v =
     (case v of
        None \<Rightarrow> Inl (NameError x)
      | Some (StrV s) \<Rightarrow> Inr s
      | Some (IntV n) \<Rightarrow> Inl (TypeError x)
      | Some NoneV \<Rightarrow> Inl (TypeError x))"

definition as_int :: "string \<Rightarrow> val option \<Rightarrow> error + int" where
  "as_int x v =
     (case v of
        None \<Rightarrow> Inl (NameError x)
      | Some (IntV n) \<Rightarrow> Inr n
      | Some (StrV s) \<Rightarrow> Inl (TypeError x)
      | Some NoneV \<Rightarrow> Inl (TypeError x))"

definition local_str :: "string \<Rightarrow> string action" where
  "local_str x st = lift (as_str x (locals_of st x)) st"

definition local_int :: "string \<Rightarrow> int action" where
  "local_int x st = lift (as_int x (locals_of st x)) st"

definition module_int :: "string \<Rightarrow> int action" where
  "module_int x st = lift (as_int x (globals_of st x)) st"

definition store_local :: "string \<Rightarrow> val \<Rightarrow> unit action" where
  "store_local x v st = Inr ((), st\<lparr>locals_of := (locals_of st)(x \<mapsto> v)\<rparr>)"

definition store_global :: "string \<Rightarrow> val \<Rightarrow> unit action" where
  "store_global x v st = Inr ((), st\<lparr>globals_of := (globals_of st)(x \<mapsto> v)\<rparr>)"

text \<open>
  A call binds the parameters to the arguments in a new frame (\<open>enter\<close>), runs the body
  there, and gives the caller the returned value with the state the body left, except
  that the frame is the caller's own again. What the body stored in the module's
  namespace stays.
\<close>

definition enter :: "string list \<Rightarrow> val list \<Rightarrow> pystate \<Rightarrow> pystate" where
  "enter params args st = st\<lparr>locals_of := map_of (zip params args)\<rparr>"

definition py_call :: "string \<Rightarrow> string list \<Rightarrow> val action \<Rightarrow> val list \<Rightarrow> val action" where
  "py_call f params body args st =
     (if length args \<noteq> length params then Inl (TypeError f)
      else case body (enter params args st) of
          Inl e \<Rightarrow> Inl e
        | Inr (v, st') \<Rightarrow> Inr (v, st'\<lparr>locals_of := locals_of st\<rparr>))"

text \<open>The binding of a name in the frame when an action has run.\<close>

definition bound_after :: "'a action \<Rightarrow> pystate \<Rightarrow> string \<Rightarrow> error + val option" where
  "bound_after a st x = (case a st of Inl e \<Rightarrow> Inl e | Inr (v, st') \<Rightarrow> Inr (locals_of st' x))"

text \<open>
  \<^verbatim>\<open>setto\<close> on names, lines 141 to 145: \<^verbatim>\<open>length\<close>, \<^verbatim>\<open>word\<close> and \<^verbatim>\<open>k\<close> are
  assigned and none is declared \<^verbatim>\<open>global\<close>; the body ends without \<^verbatim>\<open>return\<close>, so
  the call returns None.
\<close>

definition setto_body :: "val action" where
  "setto_body =
     then_do (local_str ''s'') (\<lambda>s.
     then_do (store_local ''length'' (IntV (int (length s)))) (\<lambda>u.
     then_do (local_str ''word'') (\<lambda>word.
     then_do (local_int ''offset'') (\<lambda>offset.
     then_do (local_int ''length'') (\<lambda>len.
     then_do (store_local ''word''
                (StrV (py_upto word (offset + 1) @ s @ py_from word (offset + len + 1)))) (\<lambda>u.
     then_do (local_int ''length'') (\<lambda>len.
     then_do (store_local ''k'' (IntV (offset + len))) (\<lambda>u.
       return_val NoneV))))))))"

definition setto_call :: "string \<Rightarrow> string \<Rightarrow> int \<Rightarrow> int \<Rightarrow> val action" where
  "setto_call s word k offset =
     py_call ''setto'' [''s'', ''word'', ''k'', ''offset''] setto_body
       [StrV s, StrV word, IntV k, IntV offset]"

definition setto_enter :: "string \<Rightarrow> string \<Rightarrow> int \<Rightarrow> int \<Rightarrow> pystate \<Rightarrow> pystate" where
  "setto_enter s word k offset st =
     enter [''s'', ''word'', ''k'', ''offset''] [StrV s, StrV word, IntV k, IntV offset] st"

text \<open>
  \<^verbatim>\<open>step1c\<close> on names, lines 196 to 199. \<open>step1c_rewrite\<close> is the assignment of line
  199; \<^verbatim>\<open>k0\<close> and \<^verbatim>\<open>offset\<close> are neither parameters nor assigned, so they are read
  from the module's namespace, which here is part of the state.
\<close>

definition step1c_rewrite :: "unit action" where
  "step1c_rewrite =
     then_do (local_str ''word'') (\<lambda>word.
     then_do (local_int ''k'') (\<lambda>k.
       store_local ''word'' (StrV (py_upto word k @ ''i'' @ py_from word (k + 1)))))"

definition step1c_body :: "val action" where
  "step1c_body =
     then_do (local_str ''word'') (\<lambda>word.
     then_do (local_int ''k'') (\<lambda>k.
     then_do (module_int ''k0'') (\<lambda>k0.
     then_do (module_int ''offset'') (\<lambda>offset.
     then_do (lift (ends ''y'' word k k0 offset)) (\<lambda>b.
     then_do (lift (if b then missing_args ''vowelinstem'' else Inr False)) (\<lambda>v.
     then_do (if v then step1c_rewrite else return_val ()) (\<lambda>u.
       return_val NoneV)))))))"

definition step1c_call :: "string \<Rightarrow> int \<Rightarrow> val action" where
  "step1c_call word k = py_call ''step1c'' [''word'', ''k''] step1c_body [StrV word, IntV k]"

definition step1c_enter :: "string \<Rightarrow> int \<Rightarrow> pystate \<Rightarrow> pystate" where
  "step1c_enter word k st = enter [''word'', ''k''] [StrV word, IntV k] st"

text \<open>The assignment of line 199 alone, as the body of a function of the same parameters.\<close>

definition step1c_rewrite_call :: "string \<Rightarrow> int \<Rightarrow> val action" where
  "step1c_rewrite_call word k =
     py_call ''step1c'' [''word'', ''k''] (then_do step1c_rewrite (\<lambda>u. return_val NoneV))
       [StrV word, IntV k]"

text \<open>
  A state for examples: a caller whose frame holds the buffer \<^verbatim>\<open>abc\<close> and its last
  index, in a module to which \<^verbatim>\<open>k0\<close> and \<^verbatim>\<open>offset\<close> have been added from outside.
\<close>

definition demo_state :: pystate where
  "demo_state =
     \<lparr>globals_of = [''k0'' \<mapsto> IntV 0, ''offset'' \<mapsto> IntV 2],
      locals_of = [''word'' \<mapsto> StrV ''abc'', ''k'' \<mapsto> IntV 2]\<rparr>"

section \<open>How the model evaluates\<close>

lemma global_int_unbound: "global_int name = Inl (NameError name)"
  by (simp add: global_int_def module_ints_def)

lemma and_then_Inl: "and_then (Inl e) f = Inl e"
  by (simp add: and_then_def)

lemma and_then_Inr: "and_then (Inr v) f = f v"
  by (simp add: and_then_def)

lemma py_index_cases: "py_index w i = Inl IndexError \<or> (\<exists>c. py_index w i = Inr c)"
  by (simp add: py_index_def)

lemma py_index_last:
  "0 < length w \<Longrightarrow> py_index w (int (length w) - 1) = Inr (last w)"
  by (cases w rule: rev_cases) (simp_all add: py_index_def nth_append)

text \<open>Every call to \<^verbatim>\<open>ends\<close> from a step stops while its arguments are evaluated.\<close>

lemma ends_g_raises: "ends_g s word k = Inl (NameError ''k0'')"
  by (simp add: ends_g_def global_int_unbound and_then_Inl)

lemma ends_k0_raises: "ends_k0 s word k offset = Inl (NameError ''k0'')"
  by (simp add: ends_k0_def global_int_unbound and_then_Inl)

text \<open>The measure is 0 on an empty range and a TypeError on every other.\<close>

lemma m_result: "m k0 offset = (if k0 > offset then Inr 0 else Inl (TypeError ''cons''))"
  by (simp add: m_def m_scan.simps [of cons1 offset Lead k0 0] cons1_def missing_args_def)

subsection \<open>The consonant test\<close>

lemma cons_not_y:
  assumes "py_index word i = Inr c" and "c \<noteq> CHR ''y''"
  shows "cons i word k0 = Inr (c \<notin> set ''aeiou'')"
  using assms by (simp add: cons_def and_then_Inr)

lemma cons_y_at_k0:
  assumes "py_index word k0 = Inr (CHR ''y'')"
  shows "cons k0 word k0 = Inr True"
  using assms by (simp add: cons_def and_then_Inr)

lemma cons_y_elsewhere:
  assumes "py_index word i = Inr (CHR ''y'')" and "i \<noteq> k0"
  shows "cons i word k0 = Inl (TypeError ''cons'')"
  using assms by (simp add: cons_def and_then_def missing_args_def)

subsection \<open>The value of the suffix test\<close>

lemma suffix_iff_drop:
  "suffix s ys \<longleftrightarrow> length s \<le> length ys \<and> drop (length ys - length s) ys = s"
  by (metis append_eq_conv_conj append_take_drop_id diff_add_inverse2 length_append
      le_add2 suffix_def)

text \<open>
  With the cursors inside the buffer and a suffix of at least one letter, \<^verbatim>\<open>ends\<close>
  returns whether the region \<^verbatim>\<open>word[k0:k+1]\<close> ends with the suffix.
\<close>

lemma ends_value:
  assumes "0 \<le> k0" and "k0 \<le> k" and "k < int (length word)" and "s \<noteq> []"
  shows "ends s word k k0 offset = Inr (suffix s (py_slice word k0 (k + 1)))"
proof -
  obtain K K0 where K: "k = int K" "k0 = int K0"
    using assms by (metis nonneg_int_cases order_trans)
  with assms have bounds: "K0 \<le> K" "K < length word" by simp_all
  define R where "R = take (Suc K - K0) (drop K0 word)"
  have R: "py_slice word (int K0) (int K + 1) = R"
    using bounds by (simp add: py_slice_def py_clip_def R_def nat_add_distrib min_def)
  have lenR: "length R = Suc K - K0"
    using bounds by (simp add: R_def)
  have lastR: "last R = word ! K"
  proof -
    have "R \<noteq> []" using bounds lenR by auto
    then have "last R = R ! (K - K0)"
      using lenR by (simp add: last_conv_nth)
    also have "\<dots> = word ! K"
      using bounds by (simp add: R_def)
    finally show ?thesis .
  qed
  have idx_s: "py_index s (int (length s) - 1) = Inr (last s)"
    using assms by (intro py_index_last) simp
  have idx_w: "py_index word (int K) = Inr (word ! K)"
    using bounds by (simp add: py_index_def)
  have sl: "length s \<le> Suc K - K0 \<Longrightarrow>
      py_slice word (int K - int (length s) + 1) (int K + 1) = drop (length R - length s) R"
  proof -
    assume le: "length s \<le> Suc K - K0"
    then have lo: "nat (int K - int (length s) + 1) = Suc K - length s"
      by linarith
    have "0 \<le> int K - int (length s) + 1" using le by linarith
    then have "py_slice word (int K - int (length s) + 1) (int K + 1) =
        take (length s) (drop (Suc K - length s) word)"
      using bounds le
      by (simp add: py_slice_def py_clip_def lo nat_add_distrib min_def)
    also have "\<dots> = drop (length R - length s) R"
      using bounds le by (simp add: R_def lenR drop_take)
    finally show ?thesis .
  qed
  have ends_eq: "ends s word k k0 offset =
      Inr (last s = word ! K \<and> length s \<le> Suc K - K0
           \<and> py_slice word (int K - int (length s) + 1) (int K + 1) = s)"
    using bounds
    by (auto simp add: ends_def ends_frame_def K idx_s idx_w and_then_def returned_def Let_def)
  have "suffix s R \<longleftrightarrow> last s = word ! K \<and> length s \<le> Suc K - K0
           \<and> py_slice word (int K - int (length s) + 1) (int K + 1) = s"
  proof
    assume suf: "suffix s R"
    then have "length s \<le> Suc K - K0"
      using lenR suffix_length_le by fastforce
    moreover have "last s = word ! K"
      using suf assms(4) lastR by (auto simp add: suffix_def)
    ultimately show "last s = word ! K \<and> length s \<le> Suc K - K0
           \<and> py_slice word (int K - int (length s) + 1) (int K + 1) = s"
      using suf sl lenR by (simp add: suffix_iff_drop)
  next
    assume "last s = word ! K \<and> length s \<le> Suc K - K0
           \<and> py_slice word (int K - int (length s) + 1) (int K + 1) = s"
    then show "suffix s R"
      using sl lenR by (simp add: suffix_iff_drop)
  qed
  then show ?thesis
    using ends_eq by (simp add: K R)
qed

subsection \<open>The steps\<close>

lemma step1a_result:
  "step1a word k =
     (case py_index word k of
        Inl e \<Rightarrow> Inl e
      | Inr c \<Rightarrow> if c = CHR ''s'' then Inl (NameError ''k0'') else Inr k)"
  by (simp add: step1a_def ends_g_raises and_then_def split: sum.splits)

lemma step1b_raises: "step1b word k = Inl (NameError ''k0'')"
  by (simp add: step1b_def ends_g_raises and_then_Inl)

lemma step1ab_result:
  "step1ab word k =
     (case py_index word k of Inl e \<Rightarrow> Inl e | Inr c \<Rightarrow> Inl (NameError ''k0''))"
  by (simp add: step1ab_def step1ab_frame_def step1a_result step1b_raises and_then_def
      returned_def split: sum.splits)

lemma step1c_raises: "step1c_frame word k = Inl (NameError ''k0'')"
  by (simp add: step1c_frame_def ends_g_raises and_then_Inl)

lemma any_match_raises: "sufs \<noteq> [] \<Longrightarrow> any_match sufs word k offset = Inl (NameError ''k0'')"
  by (cases sufs) (simp_all add: ends_k0_raises and_then_Inl)

lemma step4_match_result:
  "step4_match c word k offset =
     (if c \<in> set ''aceilnostuvz'' then Inl (NameError ''k0'') else Inr False)"
  by (simp add: step4_match_def any_match_raises ends_k0_raises and_then_Inl)

text \<open>
  \<^verbatim>\<open>step4\<close> returns only for a word whose letter before the last selects no group of
  suffixes, and then with \<^verbatim>\<open>k\<close> as it was.
\<close>

lemma step4_frame_result:
  "step4_frame word k offset =
     (case py_index word (k - 1) of
        Inl e \<Rightarrow> Inl e
      | Inr c \<Rightarrow> if c \<in> set ''aceilnostuvz'' then Inl (NameError ''k0'') else Inr ((), k))"
  by (simp add: step4_frame_def step4_match_result and_then_def split: sum.splits)

subsection \<open>The entry point\<close>

lemma script_main_raises: "script_main = Inl (TypeError ''stem'')"
  by (simp add: script_main_def stem3_def missing_args_def and_then_Inl)

text \<open>
  When the region that \<^verbatim>\<open>i\<close> and \<^verbatim>\<open>offset\<close> delimit has at most two letters, the
  seven-argument call returns \<open>p\<close> and enters no step.
\<close>

lemma stem_guard:
  assumes "offset \<le> i + 1"
  shows "stem p i j word k k0 offset = Inr p \<and> steps_entered p i j word k k0 offset = []"
  using assms by (simp add: stem_def steps_entered_def stem_run_def)

lemma stem_run_result:
  "stem_run p i j word k k0 offset =
     (if offset \<le> i + 1 then ([], Inr p)
      else case py_index p offset of
          Inl e \<Rightarrow> ([Step1ab], Inl e)
        | Inr c \<Rightarrow> ([Step1ab], Inl (NameError ''k0'')))"
  by (simp add: stem_run_def step1ab_result split: sum.splits)

lemma stem_returns_input_or_raises:
  "stem p i j word k k0 offset \<in> {Inr p, Inl IndexError, Inl (NameError ''k0'')}"
  using py_index_cases [of p offset]
  by (auto simp add: stem_def stem_run_result)

text \<open>
  The call that makes the whole of \<open>p\<close> the region, \<^verbatim>\<open>stem(p, 0, j, word, k, k0, len(p) - 1)\<close>,
  returns \<open>p\<close> for a word of at most two letters and raises for every longer one.
\<close>

lemma stem_word_result:
  "stem p 0 j word k k0 (int (length p) - 1) =
     (if length p \<le> 2 then Inr p else Inl (NameError ''k0''))"
proof (cases "length p \<le> 2")
  case True
  then show ?thesis by (simp add: stem_def stem_run_result)
next
  case False
  then have "py_index p (int (length p) - 1) = Inr (last p)"
    by (intro py_index_last) auto
  with False show ?thesis by (simp add: stem_def stem_run_result)
qed

subsection \<open>The file as given\<close>



subsection \<open>Calls on names\<close>

lemma leave_enter: "(enter params args st)\<lparr>locals_of := locals_of st\<rparr> = st"
  by (simp add: enter_def)

text \<open>
  The call rule does not hide every effect: a body that stores to a name declared
  \<^verbatim>\<open>global\<close> changes the state its caller sees.
\<close>

lemma global_store_is_visible:
  "py_call f [] (then_do (store_global x v) (\<lambda>u. return_val NoneV)) [] st =
     Inr (NoneV, st\<lparr>globals_of := (globals_of st)(x \<mapsto> v)\<rparr>)"
  by (simp add: py_call_def then_do_def store_global_def return_val_def enter_def)

lemma setto_body_result:
  "setto_body (setto_enter s w k off st) =
     Inr (NoneV, st\<lparr>locals_of :=
       (locals_of (setto_enter s w k off st))
         (''length'' \<mapsto> IntV (int (length s)),
          ''word'' \<mapsto> StrV (py_upto w (off + 1) @ s @ py_from w (off + int (length s) + 1)),
          ''k'' \<mapsto> IntV (off + int (length s)))\<rparr>)"
  by (simp add: setto_body_def setto_enter_def enter_def then_do_def local_str_def local_int_def
      store_local_def return_val_def lift_def as_str_def as_int_def)

lemma setto_call_result: "setto_call s w k off st = Inr (NoneV, st)"
  using setto_body_result [of s w k off st]
  by (simp add: setto_call_def py_call_def setto_enter_def)

lemma setto_bound_word:
  "bound_after setto_body (setto_enter s w k off st) ''word'' =
     Inr (Some (StrV (py_upto w (off + 1) @ s @ py_from w (off + int (length s) + 1))))"
  by (simp add: bound_after_def setto_body_result)

lemma setto_bound_k:
  "bound_after setto_body (setto_enter s w k off st) ''k'' =
     Inr (Some (IntV (off + int (length s))))"
  by (simp add: bound_after_def setto_body_result)

text \<open>The two models of \<^verbatim>\<open>setto\<close> agree on what its frame holds at the end.\<close>

lemma setto_models_agree:
  assumes "setto_frame s w k off = Inr (u, (w', k'))"
  shows "bound_after setto_body (setto_enter s w k off st) ''word'' = Inr (Some (StrV w'))"
    and "bound_after setto_body (setto_enter s w k off st) ''k'' = Inr (Some (IntV k'))"
  using assms by (auto simp add: setto_frame_def Let_def setto_bound_word setto_bound_k)

lemma step1c_rewrite_result:
  "step1c_rewrite (step1c_enter w k st) =
     Inr ((), st\<lparr>locals_of :=
       (locals_of (step1c_enter w k st))
         (''word'' \<mapsto> StrV (py_upto w k @ ''i'' @ py_from w (k + 1)))\<rparr>)"
  by (simp add: step1c_rewrite_def step1c_enter_def enter_def then_do_def local_str_def
      local_int_def store_local_def lift_def as_str_def as_int_def)

lemma step1c_rewrite_call_result: "step1c_rewrite_call w k st = Inr (NoneV, st)"
  using step1c_rewrite_result [of w k st]
  by (simp add: step1c_rewrite_call_def py_call_def step1c_enter_def then_do_def return_val_def)

lemma step1c_rewrite_bound_word:
  "bound_after step1c_rewrite (step1c_enter w k st) ''word'' =
     Inr (Some (StrV (py_upto w k @ ''i'' @ py_from w (k + 1))))"
  by (simp add: bound_after_def step1c_rewrite_result)

text \<open>
  \<^verbatim>\<open>step1c\<close> returns only when \<^verbatim>\<open>ends\<close> has returned false: when it returns true the
  call \<^verbatim>\<open>vowelinstem()\<close> raises, so line 199 is never run by \<^verbatim>\<open>step1c\<close> itself.
\<close>

lemma step1c_body_returns:
  assumes "step1c_body (step1c_enter w k st) = Inr (v, st')"
  shows "v = NoneV \<and> st' = step1c_enter w k st"
  using assms
  by (auto simp add: step1c_body_def step1c_enter_def enter_def then_do_def local_str_def
      local_int_def module_int_def lift_def as_str_def as_int_def return_val_def
      missing_args_def
      split: sum.splits option.splits val.splits if_splits)

lemma step1c_call_returns:
  assumes "step1c_call w k st = Inr (v, st')"
  shows "v = NoneV \<and> st' = st"
proof -
  from assms obtain st1 where body: "step1c_body (step1c_enter w k st) = Inr (v, st1)"
    and st': "st' = st1\<lparr>locals_of := locals_of st\<rparr>"
    by (auto simp add: step1c_call_def py_call_def step1c_enter_def split: sum.splits)
  from step1c_body_returns [OF body] have "v = NoneV" and "st1 = step1c_enter w k st"
    by simp_all
  with st' show ?thesis
    by (simp add: step1c_enter_def leave_enter)
qed

text \<open>With nothing bound to \<^verbatim>\<open>k0\<close> in the module, as in the file, the call raises.\<close>

lemma step1c_call_unbound:
  assumes "globals_of st ''k0'' = None"
  shows "step1c_call w k st = Inl (NameError ''k0'')"
  using assms
  by (simp add: step1c_call_def py_call_def step1c_body_def enter_def then_do_def local_str_def
      local_int_def module_int_def lift_def as_str_def as_int_def)

lemma step1c_call_demo: "step1c_call ''abc'' 2 demo_state = Inr (NoneV, demo_state)"
  by (simp add: step1c_call_def py_call_def step1c_body_def enter_def then_do_def local_str_def
      local_int_def module_int_def lift_def as_str_def as_int_def return_val_def demo_state_def
      ends_def ends_frame_def py_index_def and_then_def returned_def)

section \<open>The claims\<close>

text \<open>
  C1. The specification promises that \<^verbatim>\<open>stem\<close> never throws on a non-empty word of
  lowercase letters and always returns a string. On \<^verbatim>\<open>caresses\<close> with the region set
  to the whole word the run enters \<^verbatim>\<open>step1ab\<close> and ends there with a NameError for
  \<^verbatim>\<open>k0\<close>, raised while the arguments of \<^verbatim>\<open>ends("sses", word, k, k0, offset)\<close> are
  evaluated (line 174); no string is returned.
\<close>

theorem stem_raises_on_caresses:
  "stem_run ''caresses'' 0 7 ''caresses'' 7 0 7 = ([Step1ab], Inl (NameError ''k0''))
   \<and> stem ''caresses'' 0 7 ''caresses'' 7 0 7 = Inl (NameError ''k0'')"
  by (simp add: stem_def stem_run_result py_index_def)


text \<open>
  C3. The specification lists \<^verbatim>\<open>caresses -> caress\<close>, \<^verbatim>\<open>ponies -> poni\<close>,
  \<^verbatim>\<open>ties -> ti\<close> and \<^verbatim>\<open>processing -> process\<close>, as does the docstring of
  \<^verbatim>\<open>step1ab\<close> for the first three. Each of the four calls raises NameError for \<^verbatim>\<open>k0\<close>
  instead of returning a stem.
\<close>

theorem stem_reference_vectors_raise:
  "stem ''caresses'' 0 7 ''caresses'' 7 0 7 = Inl (NameError ''k0'')
   \<and> stem ''ponies'' 0 5 ''ponies'' 5 0 5 = Inl (NameError ''k0'')
   \<and> stem ''ties'' 0 3 ''ties'' 3 0 3 = Inl (NameError ''k0'')
   \<and> stem ''processing'' 0 9 ''processing'' 9 0 9 = Inl (NameError ''k0'')"
  by (simp add: stem_def stem_run_result py_index_def)

text \<open>
  C4. The specification asks that \<^verbatim>\<open>stem(stem(w)) == stem(w)\<close> for every valid word.
  On \<^verbatim>\<open>ease\<close> the inner call already raises NameError for \<^verbatim>\<open>k0\<close>, so neither side
  of the equation has a value.
\<close>

theorem stem_ease_raises:
  "stem ''ease'' 0 3 ''ease'' 3 0 3 = Inl (NameError ''k0'')"
  by (simp add: stem_def stem_run_result py_index_def)

text \<open>
  C5. The specification asks that the stem of every word be no longer than the word. On
  \<^verbatim>\<open>relational\<close> the call raises NameError for \<^verbatim>\<open>k0\<close>: there is no stem whose length
  could be compared.
\<close>

theorem stem_relational_raises:
  "stem ''relational'' 0 9 ''relational'' 9 0 9 = Inl (NameError ''k0'')"
  by (simp add: stem_def stem_run_result py_index_def)

text \<open>
  C6. The specification says that a word ending in a listed suffix whose residual stem
  has measure at most 1 passes through step 4 unchanged. \<^verbatim>\<open>pedal\<close> ends in \<^verbatim>\<open>al\<close> and
  its residual stem \<^verbatim>\<open>ped\<close> has measure 1; \<^verbatim>\<open>step4("pedal", 4, 4)\<close> raises NameError for
  \<^verbatim>\<open>k0\<close> while the arguments of \<^verbatim>\<open>ends("al", word, k, k0, offset)\<close> are evaluated
  (line 256), so the word does not pass through.
\<close>

theorem step4_al_raises:
  "step4 ''pedal'' 4 4 = Inl (NameError ''k0'')"
  by (simp add: step4_def step4_frame_result py_index_def returned_def)

text \<open>
  C7. The specification says that a successful \<^verbatim>\<open>ends\<close> sets the cursor \<^verbatim>\<open>j\<close> (here
  \<^verbatim>\<open>offset\<close>) to \<^verbatim>\<open>k - len(suffix)\<close> for its caller. A caller whose buffer is
  \<^verbatim>\<open>caresses\<close>, with \<^verbatim>\<open>k = 7\<close>, \<^verbatim>\<open>k0 = 0\<close> and \<^verbatim>\<open>offset = 7\<close>, calls
  \<^verbatim>\<open>ends("sses", ...)\<close>: the call returns true and binds 3 to the callee's own
  \<^verbatim>\<open>offset\<close>, and the caller's \<^verbatim>\<open>offset\<close> is 7 after the call as before.
\<close>

theorem ends_offset_not_seen_by_caller:
  "call_ends ''sses'' \<lparr>word_of = ''caresses'', k_of = 7, k0_of = 0, offset_of = 7\<rparr>
     = (Inr True, \<lparr>word_of = ''caresses'', k_of = 7, k0_of = 0, offset_of = 7\<rparr>)
   \<and> ends_frame ''sses'' ''caresses'' 7 0 7 = Inr (True, 3)"
  by (simp add: call_ends_def call_def ends_frame_def py_index_def py_slice_def py_clip_def
      and_then_def returned_def)

text \<open>
  C8. The specification says that a \<^verbatim>\<open>y\<close> preceded by a consonant is a vowel. In
  \<^verbatim>\<open>by\<close> the \<^verbatim>\<open>y\<close> at position 1 follows the consonant \<^verbatim>\<open>b\<close>;
  \<^verbatim>\<open>cons(1, "by", 0)\<close> raises TypeError at the recursive call \<^verbatim>\<open>cons(i - 1)\<close> of
  line 59 instead of answering.
\<close>

theorem cons_y_after_consonant_raises:
  "cons 1 ''by'' 0 = Inl (TypeError ''cons'')"
  by (simp add: cons_def py_index_def and_then_def missing_args_def)

text \<open>
  C9. A call to \<^verbatim>\<open>setto\<close> from any state, whatever the module's namespace and the
  caller's frame hold, returns None and leaves that state as it was, while in the frame of
  \<^verbatim>\<open>setto\<close> the name \<^verbatim>\<open>word\<close> is bound to the buffer with the suffix replaced and
  \<^verbatim>\<open>k\<close> to \<^verbatim>\<open>offset + len(s)\<close>. Likewise the assignment of line 199 binds the
  rewritten buffer to \<^verbatim>\<open>word\<close> in the frame of \<^verbatim>\<open>step1c\<close> and leaves the state of the
  caller as it was, and every call to \<^verbatim>\<open>step1c\<close> that returns gives None and the
  caller's state unchanged.
\<close>

theorem setto_and_step1c_assign_locals_only:
  "setto_call s w k off st = Inr (NoneV, st)
   \<and> bound_after setto_body (setto_enter s w k off st) ''word'' =
       Inr (Some (StrV (py_upto w (off + 1) @ s @ py_from w (off + int (length s) + 1))))
   \<and> bound_after setto_body (setto_enter s w k off st) ''k'' =
       Inr (Some (IntV (off + int (length s))))
   \<and> step1c_rewrite_call buf pos st = Inr (NoneV, st)
   \<and> bound_after step1c_rewrite (step1c_enter buf pos st) ''word'' =
       Inr (Some (StrV (py_upto buf pos @ ''i'' @ py_from buf (pos + 1))))
   \<and> (step1c_call buf pos st = Inr (v, st') \<longrightarrow> v = NoneV \<and> st' = st)"
  using step1c_call_returns [of buf pos st v st']
  by (simp add: setto_call_result setto_bound_word setto_bound_k step1c_rewrite_call_result
      step1c_rewrite_bound_word)

theorem setto_and_step1c_assign_locals_only_witness:
  "step1c_call ''abc'' 2 demo_state = Inr (NoneV, demo_state)
   \<and> setto_call ''ate'' ''conflating'' 6 4 demo_state = Inr (NoneV, demo_state)
   \<and> bound_after setto_body (setto_enter ''ate'' ''conflating'' 6 4 demo_state) ''word'' =
       Inr (Some (StrV ''conflateng''))
   \<and> bound_after setto_body (setto_enter ''ate'' ''conflating'' 6 4 demo_state) ''k'' =
       Inr (Some (IntV 7))"
  using setto_and_step1c_assign_locals_only
    [where s = "''ate''" and w = "''conflating''" and k = 6 and off = 4 and st = demo_state
       and buf = "''abc''" and pos = 2 and v = NoneV and st' = demo_state]
    step1c_call_demo
  by (simp add: py_upto_def py_from_def py_clip_def)

text \<open>
  C10. The outcome of \<^verbatim>\<open>stem(p, i, j, word, k, k0, offset)\<close>, a returned string or an
  exception, is the same for every value of \<^verbatim>\<open>j\<close>: the end of the region is read from
  \<^verbatim>\<open>offset\<close>.
\<close>

theorem stem_ignores_j:
  "stem p i j word k k0 offset = stem p i j' word k k0 offset"
  by (simp add: stem_def stem_run_result)

end
